theory Spec2Isabelle
  imports Complex_Main "HOL-Library.Word"
begin

section \<open>Errors\<close>

text \<open>
  Every exception of the conversion script is a value of this type; a computation that
  may throw returns \<open>error + 'a\<close>, with \<open>Inl\<close> for the exception. The kinds are the ones
  the design lists in its section on error handling, together with \<open>InvalidInput\<close> of the
  limb codec.
\<close>

datatype error =
    InputNotFound
  | MalformedInput
  | MalformedHex
  | DecompressionError
  | OutOfRange
  | InvalidMode
  | InvalidInput

section \<open>Limb codec\<close>

text \<open>
  \<^verbatim>\<open>var n: number = 55; var k: number = 7;\<close>

  The two module-level variables of \<^verbatim>\<open>convert_my_step_data.ts\<close>. They are called
  \<open>cfg_n\<close> and \<open>cfg_k\<close> here, so that \<open>n\<close> and \<open>k\<close> remain usable as variables.
\<close>

definition cfg_n :: nat where
  "cfg_n = 55"

definition cfg_k :: nat where
  "cfg_k = 7"

text \<open>
  Modelled from the spec: the body of \<^verbatim>\<open>bigint_to_array\<close>, which the script imports from
  \<^verbatim>\<open>./bls_utils\<close>. The design describes it as the encoder of the limb codec: it
  repeatedly extracts the low \<open>n\<close> bits of the value by mask and shift, producing \<open>k\<close>
  limbs, least significant first.
\<close>

fun limbs :: "nat \<Rightarrow> nat \<Rightarrow> int \<Rightarrow> int list" where
  "limbs n 0 x = []"
| "limbs n (Suc k) x = take_bit n x # limbs n k (drop_bit n x)"

text \<open>
  Modelled from the spec: the failures of \<^verbatim>\<open>bigint_to_array\<close>. A negative value is a
  precondition violation (\<open>InvalidInput\<close>); a value of \<open>2 ^ (n * k)\<close> or more cannot be
  represented (\<open>OutOfRange\<close>). The argument order \<open>(n, k, x)\<close> is the one of the call
  sites in the script.
\<close>

definition bigint_to_array :: "nat \<Rightarrow> nat \<Rightarrow> int \<Rightarrow> error + int list" where
  "bigint_to_array n k x =
     (if x < 0 then Inl InvalidInput
      else if x \<ge> 2 ^ (n * k) then Inl OutOfRange
      else Inr (limbs n k x))"

text \<open>
  Modelled from the spec: the decoder of the limb codec, which the script never calls.
  It is the sum of \<open>limb[i] * 2 ^ (n * i)\<close> over the indices of the array.
\<close>

definition decode :: "int list \<Rightarrow> nat \<Rightarrow> int" where
  "decode ls n = (\<Sum>i \<leftarrow> [0..<length ls]. ls ! i * 2 ^ (n * i))"

section \<open>Byte and hex codec\<close>

text \<open>
  Modelled from the spec: \<^verbatim>\<open>hexToBytes(hex, stripPrefix)\<close> of the byte/hex codec, whose
  code is in \<^verbatim>\<open>./bls_utils\<close>. It accepts an even-length hex string, optionally prefixed
  with a 2-character marker that is stripped before decoding, and fails with
  \<open>MalformedHex\<close> on odd length or on a character that is not a hex digit. Bytes come
  out in the order of the string, most significant byte first.
\<close>

definition is_hex_digit :: "char \<Rightarrow> bool" where
  "is_hex_digit c \<longleftrightarrow> c \<in> set ''0123456789abcdefABCDEF''"

definition hex_value :: "char \<Rightarrow> nat" where
  "hex_value c =
     (let v = of_char c :: nat in
      if 48 \<le> v \<and> v \<le> 57 then v - 48
      else if 97 \<le> v \<and> v \<le> 102 then v - 87
      else v - 55)"

fun hex_pairs :: "string \<Rightarrow> nat list" where
  "hex_pairs (a # b # rest) = (16 * hex_value a + hex_value b) # hex_pairs rest"
| "hex_pairs rest = []"

definition hexToBytes :: "string \<Rightarrow> bool \<Rightarrow> error + nat list" where
  "hexToBytes hex stripPrefix =
     (let body = (if stripPrefix then drop 2 hex else hex) in
      if odd (length hex) \<or> \<not> list_all is_hex_digit body then Inl MalformedHex
      else Inr (hex_pairs body))"

section \<open>Input and output records\<close>

text \<open>
  The fields the script reads from the parsed input document. The three fields it only
  copies (\<^verbatim>\<open>pubkeybits\<close>, \<^verbatim>\<open>participation\<close>, \<^verbatim>\<open>syncCommitteePoseidon\<close>) hold parsed
  JSON values of an arbitrary type \<open>'v\<close>; \<open>None\<close> is JavaScript's \<^verbatim>\<open>undefined\<close>, the value
  of a property the document does not have.
\<close>

record 'v StepData =
  pubkeys :: "string list"
  pubkeybits :: "'v option"
  signature :: string
  signing_root :: string
  participation :: "'v option"
  syncCommitteePoseidon :: "'v option"

text \<open>
  Modelled from the spec: the two shapes \<^verbatim>\<open>sigHexAsSnarkInput\<close> returns. In mode
  \<^verbatim>\<open>"array"\<close> all limb arrays are flattened into one sequence; in mode \<^verbatim>\<open>"object"\<close>
  the result is keyed by coordinate name, each coordinate with its two components.
\<close>

datatype snark_signature =
    SigArray "int list"
  | SigObject "int list \<times> int list" "int list \<times> int list"

text \<open>
  \<^verbatim>\<open>const myStepInput = { pubkeysX: ..., pubkeysY: ..., aggregationBits: ...,
  signature: ..., signingRoot: ..., participation: ..., syncCommitteePoseidon: ... }\<close>
\<close>

record 'v StepInput =
  pubkeysX :: "int list list"
  pubkeysY :: "int list list"
  aggregationBits :: "'v option"
  signature :: snark_signature
  signingRoot :: "nat list"
  participation :: "'v option"
  syncCommitteePoseidon :: "'v option"

section \<open>External collaborators\<close>

text \<open>
  What the script takes from the platform and from the curve library, as a record of
  capabilities: the working directory (\<^verbatim>\<open>path.resolve()\<close>), \<^verbatim>\<open>JSON.parse\<close> together
  with the shape the script relies on, \<^verbatim>\<open>PointG1.fromHex\<close> and \<^verbatim>\<open>toAffine\<close> (with the
  \<^verbatim>\<open>.value\<close> of both coordinates) of the curve library, the decompression of a
  signature into the four component integers of its two extension-field coordinates,
  and the text \<^verbatim>\<open>JSON.stringify\<close> gives for a parsed value. Each of them may throw.
  \<open>root_has_prefix\<close> says whether \<^verbatim>\<open>hexToIntArray\<close> strips a 2-character marker; the
  design leaves it open.
\<close>

record ('p, 'v) env =
  cwd :: string
  JSON_parse :: "string \<Rightarrow> error + 'v StepData"
  PointG1_fromHex :: "string \<Rightarrow> error + 'p"
  toAffine :: "'p \<Rightarrow> error + int \<times> int"
  PointG2_fromSignature :: "string \<Rightarrow> error + (int \<times> int) \<times> (int \<times> int)"
  root_has_prefix :: bool
  stringify_parsed :: "'v \<Rightarrow> string"

section \<open>Signature encoder and signing root\<close>

text \<open>
  Modelled from the spec: \<^verbatim>\<open>sigHexAsSnarkInput(sigHex, mode)\<close> of \<^verbatim>\<open>./bls_utils\<close>.
  It decompresses the signature (delegated to the curve library), applies the limb codec
  to each component integer, and then returns the flattened array (real-x, imag-x,
  real-y, imag-y) or the structured record, or fails with \<open>InvalidMode\<close>.
\<close>

definition sigHexAsSnarkInput ::
  "('p, 'v) env \<Rightarrow> string \<Rightarrow> string \<Rightarrow> error + snark_signature" where
  "sigHexAsSnarkInput env sigHex mode =
     (case PointG2_fromSignature env sigHex of
        Inl e \<Rightarrow> Inl e
      | Inr ((x0, x1), (y0, y1)) \<Rightarrow>
        (case bigint_to_array cfg_n cfg_k x0 of Inl e \<Rightarrow> Inl e | Inr a \<Rightarrow>
        (case bigint_to_array cfg_n cfg_k x1 of Inl e \<Rightarrow> Inl e | Inr b \<Rightarrow>
        (case bigint_to_array cfg_n cfg_k y0 of Inl e \<Rightarrow> Inl e | Inr c \<Rightarrow>
        (case bigint_to_array cfg_n cfg_k y1 of Inl e \<Rightarrow> Inl e | Inr d \<Rightarrow>
           if mode = ''array'' then Inr (SigArray (a @ b @ c @ d))
           else if mode = ''object'' then Inr (SigObject (a, b) (c, d))
           else Inl InvalidMode)))))"

text \<open>
  Modelled from the spec: \<^verbatim>\<open>hexToIntArray(hex)\<close> of \<^verbatim>\<open>./bls_utils\<close>, the byte/hex codec
  as the script applies it to the signing root.
\<close>

definition hexToIntArray :: "('p, 'v) env \<Rightarrow> string \<Rightarrow> error + nat list" where
  "hexToIntArray env hex = hexToBytes hex (root_has_prefix env)"

section \<open>JavaScript values and their serialisation\<close>

text \<open>
  The values the script hands to \<^verbatim>\<open>JSON.stringify\<close>: \<^verbatim>\<open>undefined\<close>, a value that came
  out of \<^verbatim>\<open>JSON.parse\<close>, a number (the script only builds bytes), a BigInt, an array, an
  object with its properties in insertion order.
\<close>

datatype 'v jsval =
    VUndefined
  | VParsed 'v
  | VNumber nat
  | VBigInt int
  | VArray "'v jsval list"
  | VObject "(string \<times> 'v jsval) list"

text \<open>
  The JSON document as a tree. \<open>JNumLit\<close> is a native numeric literal and \<open>JStrLit\<close> a
  string literal, each with its text; \<open>JRaw\<close> is the serialisation of a parsed value.
\<close>

datatype 'v json =
    JNull
  | JRaw 'v
  | JNumLit string
  | JStrLit string
  | JArr "'v json list"
  | JObj "(string \<times> 'v json) list"

text \<open>Decimal digits of a natural number, and \<^verbatim>\<open>BigInt.prototype.toString\<close>.\<close>

fun digits10 :: "nat \<Rightarrow> string" where
  "digits10 m =
     (if m < 10 then [char_of (48 + m)]
      else digits10 (m div 10) @ [char_of (48 + m mod 10)])"

definition BigInt_toString :: "int \<Rightarrow> string" where
  "BigInt_toString i =
     (if i < 0 then CHR ''-'' # digits10 (nat (- i)) else digits10 (nat i))"

text \<open>
  \<^verbatim>\<open>(BigInt.prototype as any).toJSON = function () { return this.toString(); };\<close>
\<close>

definition BigInt_toJSON :: "int \<Rightarrow> string" where
  "BigInt_toJSON this = BigInt_toString this"

text \<open>
  \<^verbatim>\<open>JSON.stringify\<close>, up to the document tree. A value with a \<^verbatim>\<open>toJSON\<close> method is
  replaced by what the method returns, so a BigInt becomes a string. A property whose
  value is \<^verbatim>\<open>undefined\<close> is left out of an object; in an array it becomes \<^verbatim>\<open>null\<close>.
\<close>

fun JSON_stringify :: "'v jsval \<Rightarrow> 'v json" where
  "JSON_stringify VUndefined = JNull"
| "JSON_stringify (VParsed v) = JRaw v"
| "JSON_stringify (VNumber m) = JNumLit (digits10 m)"
| "JSON_stringify (VBigInt i) = JStrLit (BigInt_toJSON i)"
| "JSON_stringify (VArray vs) = JArr (map JSON_stringify vs)"
| "JSON_stringify (VObject kvs) =
     JObj (map (\<lambda>(key, v). (key, JSON_stringify v))
            (filter (\<lambda>(key, v). v \<noteq> VUndefined) kvs))"

text \<open>The text of a document tree.\<close>

definition join_with :: "string \<Rightarrow> string list \<Rightarrow> string" where
  "join_with sep xs = concat (case xs of [] \<Rightarrow> [] | y # ys \<Rightarrow> y # map (\<lambda>z. sep @ z) ys)"

definition quoted :: "string \<Rightarrow> string" where
  "quoted s = CHR 0x22 # s @ [CHR 0x22]"

fun render :: "('v \<Rightarrow> string) \<Rightarrow> 'v json \<Rightarrow> string" where
  "render raw JNull = ''null''"
| "render raw (JRaw v) = raw v"
| "render raw (JNumLit s) = s"
| "render raw (JStrLit s) = quoted s"
| "render raw (JArr js) = ''['' @ join_with '','' (map (render raw) js) @ '']''"
| "render raw (JObj kvs) =
     ''{'' @ join_with '','' (map (\<lambda>(key, j). quoted key @ '':'' @ render raw j) kvs) @ ''}''"

section \<open>The step-data converter\<close>

text \<open>
  \<^verbatim>\<open>function point_to_bigint(point: PointG1): [bigint, bigint] {
    let [x, y] = point.toAffine();
    return [x.value, y.value];
  }\<close>
\<close>

definition point_to_bigint :: "('p, 'v) env \<Rightarrow> 'p \<Rightarrow> error + int \<times> int" where
  "point_to_bigint env point =
     (case toAffine env point of Inl e \<Rightarrow> Inl e | Inr (x, y) \<Rightarrow> Inr (x, y))"

text \<open>
  \<^verbatim>\<open>Array.prototype.map\<close> with a callback that may throw: the first exception ends the
  traversal and is the result.
\<close>

fun map_throwing :: "('a \<Rightarrow> error + 'b) \<Rightarrow> 'a list \<Rightarrow> error + 'b list" where
  "map_throwing f [] = Inr []"
| "map_throwing f (x # xs) =
     (case f x of
        Inl e \<Rightarrow> Inl e
      | Inr y \<Rightarrow> (case map_throwing f xs of Inl e \<Rightarrow> Inl e | Inr ys \<Rightarrow> Inr (y # ys)))"

text \<open>
  The callback of \<^verbatim>\<open>myStepData.pubkeys.map\<close>:

  \<^verbatim>\<open>const point = PointG1.fromHex((pubkey).substring(2));
  const bigints = point_to_bigint(point);
  return [bigint_to_array(n, k, bigints[0]), bigint_to_array(n, k, bigints[1])];\<close>
\<close>

definition pubkey_limbs :: "('p, 'v) env \<Rightarrow> string \<Rightarrow> error + int list \<times> int list" where
  "pubkey_limbs env pubkey =
     (case PointG1_fromHex env (drop 2 pubkey) of Inl e \<Rightarrow> Inl e | Inr point \<Rightarrow>
     (case point_to_bigint env point of Inl e \<Rightarrow> Inl e | Inr bigints \<Rightarrow>
     (case bigint_to_array cfg_n cfg_k (fst bigints) of Inl e \<Rightarrow> Inl e | Inr xs \<Rightarrow>
     (case bigint_to_array cfg_n cfg_k (snd bigints) of Inl e \<Rightarrow> Inl e | Inr ys \<Rightarrow>
        Inr (xs, ys)))))"

text \<open>
  \<^verbatim>\<open>for(let i = 0; i < pubkeys.length; i++) {
    pubkeysX.push(pubkeys[i][0]);
    pubkeysY.push(pubkeys[i][1]);
  }\<close>

  The loop with its index and the two arrays it appends to; every read \<open>pks ! i\<close> is
  guarded by \<open>i < length pks\<close>.
\<close>

function push_pubkeys ::
  "nat \<Rightarrow> (int list \<times> int list) list \<Rightarrow> int list list \<Rightarrow> int list list
     \<Rightarrow> int list list \<times> int list list" where
  "push_pubkeys i pks accX accY =
     (if i < length pks
      then push_pubkeys (i + 1) pks (accX @ [fst (pks ! i)]) (accY @ [snd (pks ! i)])
      else (accX, accY))"
  by pat_completeness auto
termination
  by (relation "measure (\<lambda>(i, pks, accX, accY). length pks - i)") auto

declare push_pubkeys.simps [simp del]

text \<open>
  The object \<^verbatim>\<open>myStepInput\<close> of \<^verbatim>\<open>convertMyStepData\<close>, from the parsed input: the
  public keys are mapped and split into the two arrays, then the properties of the
  object literal are evaluated in their order (signature, then signing root).
\<close>

definition myStepInput :: "('p, 'v) env \<Rightarrow> 'v StepData \<Rightarrow> error + 'v StepInput" where
  "myStepInput env myStepData =
     (case map_throwing (pubkey_limbs env) (pubkeys myStepData) of Inl e \<Rightarrow> Inl e
      | Inr pks \<Rightarrow>
     (case push_pubkeys 0 pks [] [] of (accX, accY) \<Rightarrow>
     (case sigHexAsSnarkInput env (StepData.signature myStepData) ''array'' of Inl e \<Rightarrow> Inl e
      | Inr sig \<Rightarrow>
     (case hexToIntArray env (signing_root myStepData) of Inl e \<Rightarrow> Inl e
      | Inr bytes \<Rightarrow>
        Inr \<lparr> pubkeysX = accX,
              pubkeysY = accY,
              aggregationBits = pubkeybits myStepData,
              signature = sig,
              signingRoot = bytes,
              participation = StepData.participation myStepData,
              syncCommitteePoseidon = StepData.syncCommitteePoseidon myStepData \<rparr>))))"

text \<open>The object as a JavaScript value: limbs are BigInts, bytes are numbers.\<close>

definition limbs_value :: "int list \<Rightarrow> 'v jsval" where
  "limbs_value ls = VArray (map VBigInt ls)"

definition parsed_value :: "'v option \<Rightarrow> 'v jsval" where
  "parsed_value p = (case p of None \<Rightarrow> VUndefined | Some v \<Rightarrow> VParsed v)"

fun signature_value :: "snark_signature \<Rightarrow> 'v jsval" where
  "signature_value (SigArray ls) = limbs_value ls"
| "signature_value (SigObject (a, b) (c, d)) =
     VObject [(''x'', VArray [limbs_value a, limbs_value b]),
              (''y'', VArray [limbs_value c, limbs_value d])]"

definition StepInput_value :: "'v StepInput \<Rightarrow> 'v jsval" where
  "StepInput_value inp =
     VObject
       [(''pubkeysX'', VArray (map limbs_value (pubkeysX inp))),
        (''pubkeysY'', VArray (map limbs_value (pubkeysY inp))),
        (''aggregationBits'', parsed_value (aggregationBits inp)),
        (''signature'', signature_value (StepInput.signature inp)),
        (''signingRoot'', VArray (map VNumber (signingRoot inp))),
        (''participation'', parsed_value (StepInput.participation inp)),
        (''syncCommitteePoseidon'', parsed_value (StepInput.syncCommitteePoseidon inp))]"

text \<open>
  What a run can change: the files, by path, and the lines written to the console.
\<close>

record world =
  files :: "string \<rightharpoonup> string"
  console :: "string list"

definition myStepDataFilename :: "('p, 'v) env \<Rightarrow> string" where
  "myStepDataFilename env = cwd env @ ''/data/my_step_data.json''"

definition myStepInputFilename :: "('p, 'v) env \<Rightarrow> string" where
  "myStepInputFilename env = cwd env @ ''/data/my_step_input.json''"

definition document :: "('p, 'v) env \<Rightarrow> 'v StepInput \<Rightarrow> string" where
  "document env inp = render (stringify_parsed env) (JSON_stringify (StepInput_value inp))"

text \<open>
  \<^verbatim>\<open>async function convertMyStepData(b: number = 512)\<close>: read and parse the input file,
  build \<^verbatim>\<open>myStepInput\<close>, log the file name, write the document. \<open>None\<close> for the argument
  is a call without it, which binds the default. An exception leaves the function at
  once, with the world as it is at that moment.
\<close>

definition convertMyStepData ::
  "('p, 'v) env \<Rightarrow> real option \<Rightarrow> world \<Rightarrow> (error + unit) \<times> world" where
  "convertMyStepData env b_arg w =
     (let b = (case b_arg of None \<Rightarrow> 512 | Some v \<Rightarrow> v) in
      case files w (myStepDataFilename env) of
        None \<Rightarrow> (Inl InputNotFound, w)
      | Some rawData \<Rightarrow>
     (case JSON_parse env rawData of
        Inl e \<Rightarrow> (Inl e, w)
      | Inr myStepData \<Rightarrow>
     (case myStepInput env myStepData of
        Inl e \<Rightarrow> (Inl e, w)
      | Inr inp \<Rightarrow>
        (Inr (),
         w \<lparr> console := console w @ [''Writing input to file '' @ myStepInputFilename env],
             files := (files w)(myStepInputFilename env \<mapsto> document env inp) \<rparr>))))"

section \<open>The text of the document, as the design describes it\<close>

text \<open>
  The text the output file is to hold, written out character by character and without
  the functions of the serialiser above: a string literal is its characters between two
  double quotes, an array is its items between brackets with a comma before every item
  but the first, a limb is the string literal of its decimal digits, a member is its
  quoted key, a colon and its value, and a member whose value is \<^verbatim>\<open>undefined\<close> is
  absent.
\<close>

definition string_literal :: "string \<Rightarrow> string" where
  "string_literal s = CHR 0x22 # s @ [CHR 0x22]"

definition array_text :: "string list \<Rightarrow> string" where
  "array_text items = ''['' @ tl (concat (map (\<lambda>t. CHR '','' # t) items)) @ '']''"

definition limbs_text :: "int list \<Rightarrow> string" where
  "limbs_text ls = array_text (map (\<lambda>l. string_literal (BigInt_toString l)) ls)"

definition member_text :: "string \<Rightarrow> string \<Rightarrow> string" where
  "member_text key t = string_literal key @ '':'' @ t"

definition optional_member :: "('v \<Rightarrow> string) \<Rightarrow> string \<Rightarrow> 'v option \<Rightarrow> string" where
  "optional_member raw key p =
     (case p of None \<Rightarrow> [] | Some v \<Rightarrow> '','' @ member_text key (raw v))"

section \<open>Sample data\<close>

text \<open>
  A small input in the shape of \<^verbatim>\<open>data/my_step_data.json\<close>, with a stand-in for the curve
  library that knows two public keys and one signature; parsed values are kept as their
  text. \<open>broken_data\<close> has a third public key that does not decompress, \<open>empty_data\<close> has
  no public key.
\<close>

definition sample_data :: "string StepData" where
  "sample_data =
     \<lparr> pubkeys = [''0xaa'', ''0xbb''],
       pubkeybits = Some ''[1,1]'',
       signature = ''0xcc'',
       signing_root = ''0x1234'',
       participation = Some ''2'',
       syncCommitteePoseidon = None \<rparr>"

definition broken_data :: "string StepData" where
  "broken_data = sample_data \<lparr> pubkeys := [''0xaa'', ''0xbb'', ''0xzz''] \<rparr>"

definition empty_data :: "string StepData" where
  "empty_data = sample_data \<lparr> pubkeys := [] \<rparr>"

definition sample_env :: "(int \<times> int, string) env" where
  "sample_env =
     \<lparr> cwd = ''/repo'',
       JSON_parse = (\<lambda>raw. if raw = ''sample'' then Inr sample_data
                           else if raw = ''broken'' then Inr broken_data
                           else if raw = ''empty'' then Inr empty_data
                           else Inl MalformedInput),
       PointG1_fromHex = (\<lambda>hex. if hex = ''aa'' then Inr (5, 7)
                                else if hex = ''bb'' then Inr (2 ^ 55, 2 ^ 110 + 3)
                                else Inl DecompressionError),
       toAffine = (\<lambda>point. if point = (0, 0) then Inl DecompressionError else Inr point),
       PointG2_fromSignature = (\<lambda>hex. if hex = ''0xcc'' then Inr ((1, 2), (3, 4))
                                      else Inl DecompressionError),
       root_has_prefix = True,
       stringify_parsed = (\<lambda>text. text) \<rparr>"

definition sample_world :: "string \<Rightarrow> world" where
  "sample_world raw = \<lparr> files = [''/repo/data/my_step_data.json'' \<mapsto> raw], console = [] \<rparr>"

section \<open>Properties of the limb codec\<close>

text \<open>The decoder, one limb at a time.\<close>

lemma decode_Nil: "decode [] n = 0"
  by (simp add: decode_def)

lemma decode_Cons: "decode (l # ls) n = l + 2 ^ n * decode ls n"
proof -
  have "[0..<length (l # ls)] = 0 # map Suc [0..<length ls]"
    by (simp add: upt_conv_Cons map_Suc_upt del: upt_Suc)
  then have "decode (l # ls) n = l + (\<Sum>i \<leftarrow> [0..<length ls]. ls ! i * 2 ^ (n * Suc i))"
    by (simp add: decode_def comp_def del: upt_Suc)
  also have "(\<Sum>i \<leftarrow> [0..<length ls]. ls ! i * 2 ^ (n * Suc i))
           = 2 ^ n * (\<Sum>i \<leftarrow> [0..<length ls]. ls ! i * 2 ^ (n * i))"
    by (simp add: sum_list_const_mult [symmetric] power_add mult.left_commute)
  finally show ?thesis by (simp add: decode_def)
qed

lemma length_limbs: "length (limbs n k x) = k"
  by (induction k arbitrary: x) simp_all

lemma limbs_range: "e \<in> set (limbs n k x) \<Longrightarrow> 0 \<le> e \<and> e < 2 ^ n"
  by (induction k arbitrary: x) auto

lemma drop_bit_bound:
  fixes x :: int
  assumes "x < 2 ^ (n * Suc k)"
  shows "drop_bit n x < 2 ^ (n * k)"
proof -
  have "x < 2 ^ (n * k) * 2 ^ n"
    using assms by (simp add: power_add mult.commute)
  moreover have "x div 2 ^ n * 2 ^ n \<le> x"
  proof -
    have "x div 2 ^ n * 2 ^ n = x - x mod 2 ^ n"
      by (simp add: minus_mod_eq_div_mult)
    moreover have "0 \<le> x mod (2::int) ^ n" by simp
    ultimately show ?thesis by linarith
  qed
  ultimately have "x div 2 ^ n * 2 ^ n < 2 ^ (n * k) * 2 ^ n" by linarith
  then have "x div 2 ^ n < 2 ^ (n * k)"
    by (simp add: mult_less_cancel_right)
  then show ?thesis by (simp add: drop_bit_eq_div)
qed

lemma decode_limbs: "0 \<le> x \<Longrightarrow> x < 2 ^ (n * k) \<Longrightarrow> decode (limbs n k x) n = x"
proof (induction k arbitrary: x)
  case 0
  then show ?case by (simp add: decode_Nil)
next
  case (Suc k)
  have "0 \<le> drop_bit n x" using Suc.prems(1) by simp
  moreover have "drop_bit n x < 2 ^ (n * k)"
    using Suc.prems(2) by (rule drop_bit_bound)
  ultimately have "decode (limbs n k (drop_bit n x)) n = drop_bit n x"
    by (rule Suc.IH)
  then show ?case
    by (simp add: decode_Cons take_bit_eq_mod drop_bit_eq_div)
qed

text \<open>
  Claim C1. For every non-negative integer \<open>v\<close> below \<open>2 ^ (n * k)\<close>, encoding \<open>v\<close> with
  limb width \<open>n\<close> and limb count \<open>k\<close> returns a limb array, and decoding that array with
  the same limb width gives back exactly \<open>v\<close>: the decoder is a left inverse of the
  encoder on the representable range.
\<close>

theorem encode_decode_roundtrip:
  assumes "0 \<le> v" and "v < 2 ^ (n * k)"
  shows "\<exists>ls. bigint_to_array n k v = Inr ls \<and> decode ls n = v"
  using assms by (simp add: bigint_to_array_def decode_limbs)

text \<open>The round trip of a thirty-digit value at the reference configuration.\<close>

theorem encode_decode_roundtrip_witness:
  "(0::int) \<le> 123456789012345678901234567890 \<and>
   (123456789012345678901234567890::int) < 2 ^ (55 * 7) \<and>
   (\<exists>ls. bigint_to_array 55 7 123456789012345678901234567890 = Inr ls \<and>
         decode ls 55 = 123456789012345678901234567890)"
  using encode_decode_roundtrip [of 123456789012345678901234567890 55 7] by simp

text \<open>
  Claim C2. The encoder succeeds for every \<open>v\<close> with \<open>0 \<le> v \<le> 2 ^ (n * k) - 1\<close>, and for
  every \<open>v \<ge> 2 ^ (n * k)\<close> it fails with \<open>OutOfRange\<close>: it neither truncates nor returns
  a limb array.
\<close>

theorem encode_capacity_boundary:
  "(0 \<le> v \<and> v \<le> 2 ^ (n * k) - 1 \<longrightarrow> (\<exists>ls. bigint_to_array n k v = Inr ls)) \<and>
   (2 ^ (n * k) \<le> v \<longrightarrow> bigint_to_array n k v = Inl OutOfRange)"
proof (intro conjI impI)
  assume "0 \<le> v \<and> v \<le> 2 ^ (n * k) - 1"
  then show "\<exists>ls. bigint_to_array n k v = Inr ls"
    by (simp add: bigint_to_array_def)
next
  assume big: "2 ^ (n * k) \<le> v"
  have "(0::int) < 2 ^ (n * k)" by simp
  with big have "\<not> v < 0" by linarith
  with big show "bigint_to_array n k v = Inl OutOfRange"
    by (simp add: bigint_to_array_def)
qed

text \<open>Both sides of the boundary at \<open>n = 55\<close>, \<open>k = 7\<close>.\<close>

theorem encode_capacity_boundary_witness:
  "(\<exists>ls. bigint_to_array 55 7 (2 ^ 385 - 1) = Inr ls) \<and>
   bigint_to_array 55 7 (2 ^ 385) = Inl OutOfRange"
  using encode_capacity_boundary [of "2 ^ 385 - 1" 55 7]
        encode_capacity_boundary [of "2 ^ 385" 55 7]
  by simp

text \<open>
  Claim C3. Every limb array the encoder produces, for any value and any parameters
  \<open>n\<close> and \<open>k\<close>, has exactly \<open>k\<close> entries, and every entry \<open>e\<close> satisfies
  \<open>0 \<le> e < 2 ^ n\<close>.
\<close>

theorem encode_limb_width:
  assumes "bigint_to_array n k v = Inr ls"
  shows "length ls = k \<and> (\<forall>e \<in> set ls. 0 \<le> e \<and> e < 2 ^ n)"
proof -
  from assms have "ls = limbs n k v"
    by (simp add: bigint_to_array_def split: if_splits)
  then show ?thesis
    using limbs_range [of _ n k v] by (simp add: length_limbs)
qed

text \<open>The limbs of \<open>2 ^ 60 + 9\<close>.\<close>

theorem encode_limb_width_witness:
  "bigint_to_array 55 7 (2 ^ 60 + 9) = Inr [9, 32, 0, 0, 0, 0, 0] \<and>
   length [9, 32, 0, 0, 0, 0, 0 :: int] = 7 \<and>
   list_all (\<lambda>e. 0 \<le> e \<and> e < 2 ^ 55) [9, 32, 0, 0, 0, 0, 0 :: int]"
proof -
  have h: "bigint_to_array 55 7 (2 ^ 60 + 9) = Inr [9, 32, 0, 0, 0, 0, 0]"
    by code_simp
  show ?thesis
    using h encode_limb_width [OF h] by (simp add: list_all_iff)
qed

section \<open>Properties of the byte and hex codec\<close>

text \<open>
  Claim C7. \<^verbatim>\<open>hexToBytes\<close> applied to \<^verbatim>\<open>0x1234\<close> with prefix stripping enabled
  returns the bytes \<open>[18, 52]\<close>; and every input of odd length, and every input with a
  character that is not a hex digit, fails with \<open>MalformedHex\<close>. The characters that
  count are those that are decoded: the input without its 2-character marker when prefix
  stripping is enabled, the whole input otherwise.
\<close>

theorem hexToBytes_malformed:
  "hexToBytes ''0x1234'' True = Inr [18, 52] \<and>
   (odd (length hex) \<or> (\<exists>c \<in> set (if stripPrefix then drop 2 hex else hex). \<not> is_hex_digit c)
      \<longrightarrow> hexToBytes hex stripPrefix = Inl MalformedHex)"
proof
  show "hexToBytes ''0x1234'' True = Inr [18, 52]"
    by (simp add: hexToBytes_def is_hex_digit_def hex_value_def)
next
  show "odd (length hex) \<or> (\<exists>c \<in> set (if stripPrefix then drop 2 hex else hex). \<not> is_hex_digit c)
      \<longrightarrow> hexToBytes hex stripPrefix = Inl MalformedHex"
    by (auto simp add: hexToBytes_def Let_def list_all_iff)
qed

text \<open>
  An odd-length input, a bad digit behind the marker, and the marker itself when it is
  not stripped.
\<close>

theorem hexToBytes_malformed_witness:
  "odd (length ''0x123'') \<and> hexToBytes ''0x123'' True = Inl MalformedHex \<and>
   CHR ''g'' \<in> set (drop 2 ''0x12g4'') \<and> \<not> is_hex_digit (CHR ''g'') \<and>
   hexToBytes ''0x12g4'' True = Inl MalformedHex \<and>
   CHR ''x'' \<in> set ''0x1234'' \<and> hexToBytes ''0x1234'' False = Inl MalformedHex"
proof -
  have g: "\<not> is_hex_digit (CHR ''g'')" and x: "\<not> is_hex_digit (CHR ''x'')"
    by (simp_all add: is_hex_digit_def)
  have "hexToBytes ''0x123'' True = Inl MalformedHex"
    using hexToBytes_malformed [of "''0x123''" True] by simp
  moreover have "hexToBytes ''0x12g4'' True = Inl MalformedHex"
    using hexToBytes_malformed [of "''0x12g4''" True] g by simp
  moreover have "hexToBytes ''0x1234'' False = Inl MalformedHex"
    using hexToBytes_malformed [of "''0x1234''" False] x by simp
  ultimately show ?thesis using g by simp
qed

section \<open>Properties of the converter\<close>

subsection \<open>The map, the loop and the object\<close>

lemma map_throwing_nth:
  "map_throwing f xs = Inr ys \<Longrightarrow>
     length ys = length xs \<and> (\<forall>i < length xs. f (xs ! i) = Inr (ys ! i))"
proof (induction xs arbitrary: ys)
  case Nil
  then show ?case by simp
next
  case (Cons x xs)
  from Cons.prems obtain y zs where
    fx: "f x = Inr y" and rest: "map_throwing f xs = Inr zs" and ys: "ys = y # zs"
    by (auto split: sum.splits)
  from Cons.IH [OF rest] have
    len: "length zs = length xs" and nth: "\<forall>i < length xs. f (xs ! i) = Inr (zs ! i)"
    by simp_all
  show ?case
  proof (intro conjI allI impI)
    show "length ys = length (x # xs)" using len ys by simp
  next
    fix i assume "i < length (x # xs)"
    then show "f ((x # xs) ! i) = Inr (ys ! i)"
      using fx nth ys by (cases i) simp_all
  qed
qed

lemma map_throwing_fails:
  "i < length xs \<Longrightarrow> f (xs ! i) = Inl e \<Longrightarrow> \<exists>e'. map_throwing f xs = Inl e'"
proof (induction xs arbitrary: i)
  case Nil
  then show ?case by simp
next
  case (Cons x xs)
  show ?case
  proof (cases i)
    case 0
    with Cons.prems show ?thesis by simp
  next
    case (Suc j)
    with Cons.prems have "\<exists>e'. map_throwing f xs = Inl e'"
      using Cons.IH [of j] by simp
    then show ?thesis by (auto split: sum.splits)
  qed
qed

lemma push_pubkeys_eq:
  "push_pubkeys i pks accX accY =
     (accX @ map fst (drop i pks), accY @ map snd (drop i pks))"
proof (induction i pks accX accY rule: push_pubkeys.induct)
  case (1 i pks accX accY)
  show ?case
  proof (cases "i < length pks")
    case True
    then have "drop i pks = pks ! i # drop (Suc i) pks"
      by (simp add: Cons_nth_drop_Suc)
    with True "1.IH" show ?thesis
      by (subst push_pubkeys.simps) simp
  next
    case False
    then show ?thesis
      by (subst push_pubkeys.simps) simp
  qed
qed

lemma myStepInput_Inr:
  assumes "myStepInput env d = Inr inp"
  shows "\<exists>pks sig bytes.
           map_throwing (pubkey_limbs env) (pubkeys d) = Inr pks \<and>
           sigHexAsSnarkInput env (StepData.signature d) ''array'' = Inr sig \<and>
           hexToIntArray env (signing_root d) = Inr bytes \<and>
           inp = \<lparr> pubkeysX = map fst pks,
                   pubkeysY = map snd pks,
                   aggregationBits = pubkeybits d,
                   signature = sig,
                   signingRoot = bytes,
                   participation = StepData.participation d,
                   syncCommitteePoseidon = StepData.syncCommitteePoseidon d \<rparr>"
  using assms
  by (auto simp add: myStepInput_def push_pubkeys_eq split: sum.splits)

lemma pubkey_limbs_Inr:
  assumes "pubkey_limbs env pubkey = Inr (xs, ys)"
  shows "\<exists>point x y.
           PointG1_fromHex env (drop 2 pubkey) = Inr point \<and>
           point_to_bigint env point = Inr (x, y) \<and>
           bigint_to_array cfg_n cfg_k x = Inr xs \<and>
           bigint_to_array cfg_n cfg_k y = Inr ys"
  using assms
  by (auto simp add: pubkey_limbs_def split: sum.splits)

lemma myStepInput_pubkey_fails:
  assumes "i < length (pubkeys d)" and "pubkey_limbs env (pubkeys d ! i) = Inl e"
  shows "\<exists>e'. myStepInput env d = Inl e'"
proof -
  from map_throwing_fails [of i "pubkeys d" "pubkey_limbs env" e] assms obtain e' where
    "map_throwing (pubkey_limbs env) (pubkeys d) = Inl e'" by blast
  then show ?thesis by (simp add: myStepInput_def)
qed

lemma myStepInput_signature_fails:
  assumes "sigHexAsSnarkInput env (StepData.signature d) ''array'' = Inl e"
  shows "\<exists>e'. myStepInput env d = Inl e'"
  using assms by (simp add: myStepInput_def split: sum.splits prod.splits)

lemma myStepInput_root_fails:
  assumes "hexToIntArray env (signing_root d) = Inl e"
  shows "\<exists>e'. myStepInput env d = Inl e'"
  using assms by (simp add: myStepInput_def split: sum.splits prod.splits)

lemma map_throwing_succeeds:
  "(\<forall>i < length xs. \<exists>y. f (xs ! i) = Inr y) \<Longrightarrow> \<exists>ys. map_throwing f xs = Inr ys"
proof (induction xs)
  case Nil
  then show ?case by simp
next
  case (Cons x xs)
  from Cons.prems have "\<exists>y. f ((x # xs) ! 0) = Inr y" by blast
  then obtain y where y: "f x = Inr y" by auto
  have "\<forall>i < length xs. \<exists>y. f (xs ! i) = Inr y"
  proof (intro allI impI)
    fix i assume "i < length xs"
    then have "Suc i < length (x # xs)" by simp
    with Cons.prems have "\<exists>y. f ((x # xs) ! Suc i) = Inr y" by blast
    then show "\<exists>y. f (xs ! i) = Inr y" by simp
  qed
  from Cons.IH [OF this] obtain ys where "map_throwing f xs = Inr ys" ..
  with y show ?case by simp
qed

lemma pubkey_limbs_succeeds:
  assumes "PointG1_fromHex env (drop 2 pubkey) = Inr point"
      and "point_to_bigint env point = Inr (x, y)"
      and "bigint_to_array cfg_n cfg_k x = Inr xs"
      and "bigint_to_array cfg_n cfg_k y = Inr ys"
  shows "pubkey_limbs env pubkey = Inr (xs, ys)"
  using assms by (simp add: pubkey_limbs_def)

lemma myStepInput_succeeds:
  assumes "map_throwing (pubkey_limbs env) (pubkeys d) = Inr pks"
      and "sigHexAsSnarkInput env (StepData.signature d) ''array'' = Inr sig"
      and "hexToIntArray env (signing_root d) = Inr bytes"
  shows "\<exists>inp. myStepInput env d = Inr inp"
  using assms by (simp add: myStepInput_def push_pubkeys_eq)

lemma sigHexAsSnarkInput_array:
  "sigHexAsSnarkInput env sigHex ''array'' = Inr sig \<Longrightarrow> \<exists>ls. sig = SigArray ls"
  by (auto simp add: sigHexAsSnarkInput_def split: sum.splits prod.splits)

subsection \<open>A run\<close>

lemma convertMyStepData_Inl:
  "fst (convertMyStepData env b w) = Inl e \<Longrightarrow> snd (convertMyStepData env b w) = w"
  by (simp add: convertMyStepData_def split: option.splits sum.splits)

lemma convertMyStepData_Inr:
  assumes "fst (convertMyStepData env b w) = Inr u"
  shows "\<exists>rawData d inp.
           files w (myStepDataFilename env) = Some rawData \<and>
           JSON_parse env rawData = Inr d \<and>
           myStepInput env d = Inr inp \<and>
           snd (convertMyStepData env b w) =
             w \<lparr> console := console w @ [''Writing input to file '' @ myStepInputFilename env],
                 files := (files w)(myStepInputFilename env \<mapsto> document env inp) \<rparr>"
  using assms
  by (auto simp add: convertMyStepData_def split: option.splits sum.splits)

lemma convertMyStepData_loaded:
  assumes "files w (myStepDataFilename env) = Some rawData"
      and "JSON_parse env rawData = Inr d"
  shows "convertMyStepData env b w =
           (case myStepInput env d of
              Inl e \<Rightarrow> (Inl e, w)
            | Inr inp \<Rightarrow>
                (Inr (),
                 w \<lparr> console := console w @ [''Writing input to file '' @ myStepInputFilename env],
                     files := (files w)(myStepInputFilename env \<mapsto> document env inp) \<rparr>))"
  using assms by (simp add: convertMyStepData_def)

subsection \<open>The sample data\<close>

lemma sample_input:
  "myStepInput sample_env sample_data =
     Inr \<lparr> pubkeysX = [[5, 0, 0, 0, 0, 0, 0], [0, 1, 0, 0, 0, 0, 0]],
           pubkeysY = [[7, 0, 0, 0, 0, 0, 0], [3, 0, 1, 0, 0, 0, 0]],
           aggregationBits = Some ''[1,1]'',
           signature = SigArray [1, 0, 0, 0, 0, 0, 0, 2, 0, 0, 0, 0, 0, 0,
                                 3, 0, 0, 0, 0, 0, 0, 4, 0, 0, 0, 0, 0, 0],
           signingRoot = [18, 52],
           participation = Some ''2'',
           syncCommitteePoseidon = None \<rparr>"
  by code_simp

lemma sample_keys:
  "PointG1_fromHex sample_env (drop 2 ''0xaa'') = Inr (5, 7)"
  "PointG1_fromHex sample_env (drop 2 ''0xbb'') = Inr (2 ^ 55, 2 ^ 110 + 3)"
  "point_to_bigint sample_env (5, 7) = Inr (5, 7)"
  "point_to_bigint sample_env (2 ^ 55, 2 ^ 110 + 3) = Inr (2 ^ 55, 2 ^ 110 + 3)"
  "bigint_to_array cfg_n cfg_k 5 = Inr [5, 0, 0, 0, 0, 0, 0]"
  "bigint_to_array cfg_n cfg_k 7 = Inr [7, 0, 0, 0, 0, 0, 0]"
  "bigint_to_array cfg_n cfg_k (2 ^ 55) = Inr [0, 1, 0, 0, 0, 0, 0]"
  "bigint_to_array cfg_n cfg_k (2 ^ 110 + 3) = Inr [3, 0, 1, 0, 0, 0, 0]"
  by code_simp+

lemma sample_pubkeys: "pubkeys sample_data = [''0xaa'', ''0xbb'']"
  by (simp add: sample_data_def)

lemma sample_rest:
  "sigHexAsSnarkInput sample_env (StepData.signature sample_data) ''array''
     = Inr (SigArray [1, 0, 0, 0, 0, 0, 0, 2, 0, 0, 0, 0, 0, 0,
                      3, 0, 0, 0, 0, 0, 0, 4, 0, 0, 0, 0, 0, 0])"
  "hexToIntArray sample_env (signing_root sample_data) = Inr [18, 52]"
  by code_simp+

lemma broken_pubkey:
  "pubkey_limbs sample_env (pubkeys broken_data ! 2) = Inl DecompressionError"
  by code_simp

lemma empty_input_ok:
  "sigHexAsSnarkInput sample_env (StepData.signature empty_data) ''array''
     = Inr (SigArray [1, 0, 0, 0, 0, 0, 0, 2, 0, 0, 0, 0, 0, 0,
                      3, 0, 0, 0, 0, 0, 0, 4, 0, 0, 0, 0, 0, 0])"
  "hexToIntArray sample_env (signing_root empty_data) = Inr [18, 52]"
  by code_simp+

lemma sample_files:
  "files (sample_world raw) (myStepDataFilename sample_env) = Some raw"
  by (simp add: sample_world_def myStepDataFilename_def sample_env_def)

lemma sample_parse:
  "JSON_parse sample_env ''sample'' = Inr sample_data"
  "JSON_parse sample_env ''broken'' = Inr broken_data"
  "JSON_parse sample_env ''empty'' = Inr empty_data"
  by (simp_all add: sample_env_def)

lemma sample_run_ok: "fst (convertMyStepData sample_env b (sample_world ''sample'')) = Inr ()"
  using convertMyStepData_loaded [OF sample_files sample_parse(1), of b]
  by (simp add: sample_input)

lemma sample_run_writes:
  "snd (convertMyStepData sample_env b (sample_world ''sample'')) \<noteq> sample_world ''sample''"
proof -
  have "console (snd (convertMyStepData sample_env b (sample_world ''sample''))) \<noteq> []"
    using convertMyStepData_loaded [OF sample_files sample_parse(1), of b]
    by (simp add: sample_input)
  moreover have "console (sample_world ''sample'') = []"
    by (simp add: sample_world_def)
  ultimately show ?thesis by auto
qed

subsection \<open>Public keys\<close>

text \<open>
  Claim C4. For every list of public-key hex strings, the converter produces arrays
  \<open>pubkeysX\<close> and \<open>pubkeysY\<close> such that, for every index \<open>i\<close>, \<open>pubkeysX[i]\<close> and
  \<open>pubkeysY[i]\<close> are the limb encodings of the affine \<open>x\<close> and \<open>y\<close> coordinates of the
  point decompressed from public key \<open>i\<close> of the input (the string after its two leading
  characters, which the script drops): the order of the input is preserved. First,
  whatever object is built has this content. Second, the object is built whenever every
  public key decompresses and both of its coordinates encode, and the signature and the
  signing root encode.
\<close>

theorem pubkeys_order_preserved:
  "(myStepInput env d = Inr inp \<longrightarrow>
      length (pubkeysX inp) = length (pubkeys d) \<and>
      length (pubkeysY inp) = length (pubkeys d) \<and>
      (\<forall>i < length (pubkeys d). \<exists>point x y.
         PointG1_fromHex env (drop 2 (pubkeys d ! i)) = Inr point \<and>
         point_to_bigint env point = Inr (x, y) \<and>
         bigint_to_array cfg_n cfg_k x = Inr (pubkeysX inp ! i) \<and>
         bigint_to_array cfg_n cfg_k y = Inr (pubkeysY inp ! i))) \<and>
   ((\<forall>i < length (pubkeys d). \<exists>point x y xs ys.
       PointG1_fromHex env (drop 2 (pubkeys d ! i)) = Inr point \<and>
       point_to_bigint env point = Inr (x, y) \<and>
       bigint_to_array cfg_n cfg_k x = Inr xs \<and>
       bigint_to_array cfg_n cfg_k y = Inr ys) \<and>
    (\<exists>sig. sigHexAsSnarkInput env (StepData.signature d) ''array'' = Inr sig) \<and>
    (\<exists>bytes. hexToIntArray env (signing_root d) = Inr bytes) \<longrightarrow>
      (\<exists>out. myStepInput env d = Inr out))"
proof (intro conjI impI)
  assume built: "myStepInput env d = Inr inp"
  from myStepInput_Inr [OF built] obtain pks where
    pks: "map_throwing (pubkey_limbs env) (pubkeys d) = Inr pks" and
    X: "pubkeysX inp = map fst pks" and Y: "pubkeysY inp = map snd pks"
    by auto
  from map_throwing_nth [OF pks] have
    len: "length pks = length (pubkeys d)" and
    nth: "\<forall>i < length (pubkeys d). pubkey_limbs env (pubkeys d ! i) = Inr (pks ! i)"
    by simp_all
  show "length (pubkeysX inp) = length (pubkeys d)" using X len by simp
  show "length (pubkeysY inp) = length (pubkeys d)" using Y len by simp
  show "\<forall>i < length (pubkeys d). \<exists>point x y.
         PointG1_fromHex env (drop 2 (pubkeys d ! i)) = Inr point \<and>
         point_to_bigint env point = Inr (x, y) \<and>
         bigint_to_array cfg_n cfg_k x = Inr (pubkeysX inp ! i) \<and>
         bigint_to_array cfg_n cfg_k y = Inr (pubkeysY inp ! i)"
  proof (intro allI impI)
    fix i assume i: "i < length (pubkeys d)"
    with nth have "pubkey_limbs env (pubkeys d ! i) = Inr (fst (pks ! i), snd (pks ! i))"
      by simp
    from pubkey_limbs_Inr [OF this] i len X Y
    show "\<exists>point x y.
            PointG1_fromHex env (drop 2 (pubkeys d ! i)) = Inr point \<and>
            point_to_bigint env point = Inr (x, y) \<and>
            bigint_to_array cfg_n cfg_k x = Inr (pubkeysX inp ! i) \<and>
            bigint_to_array cfg_n cfg_k y = Inr (pubkeysY inp ! i)"
      by simp
  qed
next
  assume a: "(\<forall>i < length (pubkeys d). \<exists>point x y xs ys.
       PointG1_fromHex env (drop 2 (pubkeys d ! i)) = Inr point \<and>
       point_to_bigint env point = Inr (x, y) \<and>
       bigint_to_array cfg_n cfg_k x = Inr xs \<and>
       bigint_to_array cfg_n cfg_k y = Inr ys) \<and>
    (\<exists>sig. sigHexAsSnarkInput env (StepData.signature d) ''array'' = Inr sig) \<and>
    (\<exists>bytes. hexToIntArray env (signing_root d) = Inr bytes)"
  have "\<forall>i < length (pubkeys d). \<exists>p. pubkey_limbs env (pubkeys d ! i) = Inr p"
  proof (intro allI impI)
    fix i assume "i < length (pubkeys d)"
    with a obtain point x y xs ys where
      "PointG1_fromHex env (drop 2 (pubkeys d ! i)) = Inr point"
      "point_to_bigint env point = Inr (x, y)"
      "bigint_to_array cfg_n cfg_k x = Inr xs"
      "bigint_to_array cfg_n cfg_k y = Inr ys"
      by blast
    then have "pubkey_limbs env (pubkeys d ! i) = Inr (xs, ys)"
      by (rule pubkey_limbs_succeeds)
    then show "\<exists>p. pubkey_limbs env (pubkeys d ! i) = Inr p" ..
  qed
  then obtain pks where "map_throwing (pubkey_limbs env) (pubkeys d) = Inr pks"
    using map_throwing_succeeds [of "pubkeys d" "pubkey_limbs env"] by blast
  with a show "\<exists>out. myStepInput env d = Inr out"
    using myStepInput_succeeds by blast
qed

text \<open>
  Both public keys of the sample decompress and encode, so the object is built, and its
  two arrays are the limbs of \<open>(5, 7)\<close> and of \<open>(2 ^ 55, 2 ^ 110 + 3)\<close>, in this order.
\<close>

theorem pubkeys_order_preserved_witness:
  "\<exists>out. myStepInput sample_env sample_data = Inr out \<and>
     pubkeysX out = [[5, 0, 0, 0, 0, 0, 0], [0, 1, 0, 0, 0, 0, 0]] \<and>
     pubkeysY out = [[7, 0, 0, 0, 0, 0, 0], [3, 0, 1, 0, 0, 0, 0]]"
proof -
  have keys: "\<forall>i < length (pubkeys sample_data). \<exists>point x y xs ys.
       PointG1_fromHex sample_env (drop 2 (pubkeys sample_data ! i)) = Inr point \<and>
       point_to_bigint sample_env point = Inr (x, y) \<and>
       bigint_to_array cfg_n cfg_k x = Inr xs \<and>
       bigint_to_array cfg_n cfg_k y = Inr ys"
  proof (intro allI impI)
    fix i assume "i < length (pubkeys sample_data)"
    then have "i = 0 \<or> i = 1" by (auto simp add: sample_pubkeys)
    then show "\<exists>point x y xs ys.
       PointG1_fromHex sample_env (drop 2 (pubkeys sample_data ! i)) = Inr point \<and>
       point_to_bigint sample_env point = Inr (x, y) \<and>
       bigint_to_array cfg_n cfg_k x = Inr xs \<and>
       bigint_to_array cfg_n cfg_k y = Inr ys"
      using sample_keys by (auto simp add: sample_pubkeys)
  qed
  note main = pubkeys_order_preserved [of sample_env sample_data]
  from main keys sample_rest obtain out where out: "myStepInput sample_env sample_data = Inr out"
    by blast
  from main [of out] out have
    lenX: "length (pubkeysX out) = 2" and lenY: "length (pubkeysY out) = 2" and
    nth: "\<forall>i < 2. \<exists>point x y.
         PointG1_fromHex sample_env (drop 2 ([''0xaa'', ''0xbb''] ! i)) = Inr point \<and>
         point_to_bigint sample_env point = Inr (x, y) \<and>
         bigint_to_array cfg_n cfg_k x = Inr (pubkeysX out ! i) \<and>
         bigint_to_array cfg_n cfg_k y = Inr (pubkeysY out ! i)"
    by (simp_all add: sample_pubkeys)
  from nth [rule_format, of 0] have
    "pubkeysX out ! 0 = [5, 0, 0, 0, 0, 0, 0]" "pubkeysY out ! 0 = [7, 0, 0, 0, 0, 0, 0]"
    using sample_keys by auto
  moreover from nth [rule_format, of 1] have
    "pubkeysX out ! 1 = [0, 1, 0, 0, 0, 0, 0]" "pubkeysY out ! 1 = [3, 0, 1, 0, 0, 0, 0]"
    using sample_keys by auto
  ultimately have "pubkeysX out = [[5, 0, 0, 0, 0, 0, 0], [0, 1, 0, 0, 0, 0, 0]]"
    and "pubkeysY out = [[7, 0, 0, 0, 0, 0, 0], [3, 0, 1, 0, 0, 0, 0]]"
    using lenX lenY by (auto simp add: list_eq_iff_nth_eq less_Suc_eq numeral_2_eq_2)
  with out show ?thesis by blast
qed

text \<open>
  Claim C10. On every successful run the arrays \<open>pubkeysX\<close> and \<open>pubkeysY\<close> of the
  written document have the same length, the number of entries of the input's
  \<open>pubkeys\<close>; and an input without public keys gives two empty arrays and a run that
  still succeeds, provided the signature and the signing root can be encoded.
\<close>

theorem pubkey_arrays_parallel:
  "(fst (convertMyStepData env b w) = Inr () \<longrightarrow>
      (\<exists>raw d' inp.
         files w (myStepDataFilename env) = Some raw \<and> JSON_parse env raw = Inr d' \<and>
         myStepInput env d' = Inr inp \<and>
         files (snd (convertMyStepData env b w)) (myStepInputFilename env)
           = Some (document env inp) \<and>
         length (pubkeysX inp) = length (pubkeysY inp) \<and>
         length (pubkeysX inp) = length (pubkeys d'))) \<and>
   (files w (myStepDataFilename env) = Some rawData \<and> JSON_parse env rawData = Inr d \<and>
    pubkeys d = [] \<and>
    (\<exists>sig. sigHexAsSnarkInput env (StepData.signature d) ''array'' = Inr sig) \<and>
    (\<exists>bytes. hexToIntArray env (signing_root d) = Inr bytes) \<longrightarrow>
      (\<exists>inp. myStepInput env d = Inr inp \<and> pubkeysX inp = [] \<and> pubkeysY inp = [] \<and>
         fst (convertMyStepData env b w) = Inr () \<and>
         files (snd (convertMyStepData env b w)) (myStepInputFilename env)
           = Some (document env inp)))"
proof (intro conjI impI)
  assume ok: "fst (convertMyStepData env b w) = Inr ()"
  from convertMyStepData_Inr [OF ok] obtain raw d' inp where
    raw: "files w (myStepDataFilename env) = Some raw" and
    parse: "JSON_parse env raw = Inr d'" and
    inp: "myStepInput env d' = Inr inp" and
    w': "snd (convertMyStepData env b w) =
           w \<lparr> console := console w @ [''Writing input to file '' @ myStepInputFilename env],
               files := (files w)(myStepInputFilename env \<mapsto> document env inp) \<rparr>"
    by blast
  from myStepInput_Inr [OF inp] obtain pks where
    pks: "map_throwing (pubkey_limbs env) (pubkeys d') = Inr pks" and
    X: "pubkeysX inp = map fst pks" and Y: "pubkeysY inp = map snd pks"
    by auto
  from map_throwing_nth [OF pks] have "length pks = length (pubkeys d')" by simp
  with X Y have "length (pubkeysX inp) = length (pubkeysY inp)"
    and "length (pubkeysX inp) = length (pubkeys d')"
    by simp_all
  moreover from w' have
    "files (snd (convertMyStepData env b w)) (myStepInputFilename env) = Some (document env inp)"
    by simp
  ultimately show "\<exists>raw d' inp.
         files w (myStepDataFilename env) = Some raw \<and> JSON_parse env raw = Inr d' \<and>
         myStepInput env d' = Inr inp \<and>
         files (snd (convertMyStepData env b w)) (myStepInputFilename env)
           = Some (document env inp) \<and>
         length (pubkeysX inp) = length (pubkeysY inp) \<and>
         length (pubkeysX inp) = length (pubkeys d')"
    using raw parse inp by blast
next
  assume a: "files w (myStepDataFilename env) = Some rawData \<and> JSON_parse env rawData = Inr d \<and>
    pubkeys d = [] \<and>
    (\<exists>sig. sigHexAsSnarkInput env (StepData.signature d) ''array'' = Inr sig) \<and>
    (\<exists>bytes. hexToIntArray env (signing_root d) = Inr bytes)"
  then obtain sig bytes where
    "sigHexAsSnarkInput env (StepData.signature d) ''array'' = Inr sig"
    "hexToIntArray env (signing_root d) = Inr bytes" and "pubkeys d = []"
    by blast
  then have "\<exists>inp. myStepInput env d = Inr inp \<and> pubkeysX inp = [] \<and> pubkeysY inp = []"
    by (simp add: myStepInput_def push_pubkeys_eq)
  then obtain inp where
    inp: "myStepInput env d = Inr inp" "pubkeysX inp = []" "pubkeysY inp = []"
    by blast
  from a have loaded: "files w (myStepDataFilename env) = Some rawData"
    "JSON_parse env rawData = Inr d"
    by simp_all
  have "fst (convertMyStepData env b w) = Inr ()"
    and "files (snd (convertMyStepData env b w)) (myStepInputFilename env)
           = Some (document env inp)"
    using inp(1) by (simp_all add: convertMyStepData_loaded [OF loaded])
  with inp show "\<exists>inp. myStepInput env d = Inr inp \<and> pubkeysX inp = [] \<and> pubkeysY inp = [] \<and>
         fst (convertMyStepData env b w) = Inr () \<and>
         files (snd (convertMyStepData env b w)) (myStepInputFilename env)
           = Some (document env inp)"
    by blast
qed

text \<open>The run on the input without public keys, and the run on the sample.\<close>

theorem pubkey_arrays_parallel_witness:
  "files (sample_world ''empty'') (myStepDataFilename sample_env) = Some ''empty'' \<and>
   JSON_parse sample_env ''empty'' = Inr empty_data \<and> pubkeys empty_data = [] \<and>
   (\<exists>inp. myStepInput sample_env empty_data = Inr inp \<and> pubkeysX inp = [] \<and> pubkeysY inp = [] \<and>
      fst (convertMyStepData sample_env None (sample_world ''empty'')) = Inr ()) \<and>
   fst (convertMyStepData sample_env None (sample_world ''sample'')) = Inr () \<and>
   (\<exists>raw d inp. files (sample_world ''sample'') (myStepDataFilename sample_env) = Some raw \<and>
      JSON_parse sample_env raw = Inr d \<and> myStepInput sample_env d = Inr inp \<and>
      length (pubkeysX inp) = length (pubkeysY inp) \<and> length (pubkeysX inp) = length (pubkeys d))"
proof -
  have empty: "pubkeys empty_data = []"
    by (simp add: empty_data_def)
  from pubkey_arrays_parallel
         [of sample_env None "sample_world ''empty''" "''empty''" empty_data]
       sample_files sample_parse(3) empty empty_input_ok
  have "\<exists>inp. myStepInput sample_env empty_data = Inr inp \<and> pubkeysX inp = [] \<and>
          pubkeysY inp = [] \<and>
          fst (convertMyStepData sample_env None (sample_world ''empty'')) = Inr ()"
    by blast
  moreover
  from pubkey_arrays_parallel [of sample_env None "sample_world ''sample''"] sample_run_ok
  have "\<exists>raw d inp. files (sample_world ''sample'') (myStepDataFilename sample_env) = Some raw \<and>
      JSON_parse sample_env raw = Inr d \<and> myStepInput sample_env d = Inr inp \<and>
      length (pubkeysX inp) = length (pubkeysY inp) \<and> length (pubkeysX inp) = length (pubkeys d)"
    by blast
  ultimately show ?thesis
    using sample_files sample_parse(3) empty sample_run_ok by blast
qed

subsection \<open>Failure and the output file\<close>

text \<open>
  Claim C5. If any step of the conversion fails (malformed hex, a public key or the
  signature that does not decompress, an encoding error), the run writes no output file:
  a run that ends in an error leaves the world as it was, a failing step makes the run
  end in an error, and the world changes only by the one write that follows the
  computation of every field of the object.
\<close>

theorem no_partial_output:
  "(\<forall>e. fst (convertMyStepData env b w) = Inl e \<longrightarrow> snd (convertMyStepData env b w) = w) \<and>
   (files w (myStepDataFilename env) = Some rawData \<and> JSON_parse env rawData = Inr d \<and>
    ((\<exists>i < length (pubkeys d). \<exists>e. pubkey_limbs env (pubkeys d ! i) = Inl e) \<or>
     (\<exists>e. sigHexAsSnarkInput env (StepData.signature d) ''array'' = Inl e) \<or>
     (\<exists>e. hexToIntArray env (signing_root d) = Inl e))
    \<longrightarrow> (\<exists>e. convertMyStepData env b w = (Inl e, w))) \<and>
   (snd (convertMyStepData env b w) \<noteq> w \<longrightarrow>
      (\<exists>raw d' inp. files w (myStepDataFilename env) = Some raw \<and>
         JSON_parse env raw = Inr d' \<and> myStepInput env d' = Inr inp \<and>
         fst (convertMyStepData env b w) = Inr () \<and>
         files (snd (convertMyStepData env b w)) =
           (files w)(myStepInputFilename env \<mapsto> document env inp)))"
proof (intro conjI allI impI)
  fix e assume "fst (convertMyStepData env b w) = Inl e"
  then show "snd (convertMyStepData env b w) = w" by (rule convertMyStepData_Inl)
next
  assume a: "files w (myStepDataFilename env) = Some rawData \<and> JSON_parse env rawData = Inr d \<and>
    ((\<exists>i < length (pubkeys d). \<exists>e. pubkey_limbs env (pubkeys d ! i) = Inl e) \<or>
     (\<exists>e. sigHexAsSnarkInput env (StepData.signature d) ''array'' = Inl e) \<or>
     (\<exists>e. hexToIntArray env (signing_root d) = Inl e))"
  then have "\<exists>e'. myStepInput env d = Inl e'"
    using myStepInput_pubkey_fails myStepInput_signature_fails myStepInput_root_fails
    by blast
  then obtain e' where "myStepInput env d = Inl e'" ..
  with a have "convertMyStepData env b w = (Inl e', w)"
    by (simp add: convertMyStepData_loaded)
  then show "\<exists>e. convertMyStepData env b w = (Inl e, w)" ..
next
  assume changed: "snd (convertMyStepData env b w) \<noteq> w"
  obtain r where r: "fst (convertMyStepData env b w) = r" by simp
  show "\<exists>raw d' inp. files w (myStepDataFilename env) = Some raw \<and>
         JSON_parse env raw = Inr d' \<and> myStepInput env d' = Inr inp \<and>
         fst (convertMyStepData env b w) = Inr () \<and>
         files (snd (convertMyStepData env b w)) =
           (files w)(myStepInputFilename env \<mapsto> document env inp)"
  proof (cases r)
    case (Inl e)
    with r changed convertMyStepData_Inl show ?thesis by blast
  next
    case (Inr u)
    with r have "fst (convertMyStepData env b w) = Inr u" by simp
    from convertMyStepData_Inr [OF this] obtain raw d' inp where
      "files w (myStepDataFilename env) = Some raw" "JSON_parse env raw = Inr d'"
      "myStepInput env d' = Inr inp"
      "snd (convertMyStepData env b w) =
         w \<lparr> console := console w @ [''Writing input to file '' @ myStepInputFilename env],
             files := (files w)(myStepInputFilename env \<mapsto> document env inp) \<rparr>"
      by blast
    moreover have "fst (convertMyStepData env b w) = Inr ()"
      using r Inr by simp
    ultimately show ?thesis by auto
  qed
qed

text \<open>
  The third public key of \<open>broken_data\<close> does not decompress: the run fails and the
  files are the same. The run on the sample does write.
\<close>

theorem no_partial_output_witness:
  "2 < length (pubkeys broken_data) \<and>
   pubkey_limbs sample_env (pubkeys broken_data ! 2) = Inl DecompressionError \<and>
   (\<exists>e. convertMyStepData sample_env None (sample_world ''broken'')
          = (Inl e, sample_world ''broken'')) \<and>
   snd (convertMyStepData sample_env None (sample_world ''sample'')) \<noteq> sample_world ''sample'' \<and>
   fst (convertMyStepData sample_env None (sample_world ''sample'')) = Inr ()"
proof -
  have len: "2 < length (pubkeys broken_data)"
    by (simp add: broken_data_def)
  from no_partial_output [of sample_env None "sample_world ''broken''" "''broken''" broken_data]
       sample_files sample_parse(2) len broken_pubkey
  have "\<exists>e. convertMyStepData sample_env None (sample_world ''broken'')
          = (Inl e, sample_world ''broken'')"
    by blast
  moreover
  from no_partial_output [of sample_env None "sample_world ''sample''" "''sample''" sample_data]
       sample_run_writes
  have "fst (convertMyStepData sample_env None (sample_world ''sample'')) = Inr ()"
    by blast
  ultimately show ?thesis
    using len broken_pubkey sample_run_writes by blast
qed

subsection \<open>Serialisation\<close>

lemma join_with_comma:
  "join_with '','' xs = tl (concat (map (\<lambda>t. CHR '','' # t) xs))"
proof -
  have "((@) '','') = ((#) CHR '','')"
    by (rule ext) simp
  then show ?thesis
    by (cases xs) (simp_all add: join_with_def)
qed

lemma render_limbs:
  "render raw (JSON_stringify (limbs_value ls)) = limbs_text ls"
  by (simp add: limbs_value_def limbs_text_def array_text_def join_with_comma
                BigInt_toJSON_def quoted_def string_literal_def comp_def)

lemma render_limb_arrays:
  "render raw (JSON_stringify (VArray (map limbs_value lss)))
     = array_text (map limbs_text lss)"
  by (simp add: array_text_def join_with_comma comp_def render_limbs)

lemma limbs_value_defined: "limbs_value ls \<noteq> VUndefined"
  by (simp add: limbs_value_def)

lemma render_bytes:
  "render raw (JSON_stringify (VArray (map VNumber bs))) = array_text (map digits10 bs)"
  by (simp add: array_text_def join_with_comma comp_def)

text \<open>
  Claim C6. In the serialised document, the text written to the output file, every
  arbitrary-precision integer, that is every limb of \<open>pubkeysX\<close>, \<open>pubkeysY\<close> and
  \<open>signature\<close>, is emitted as the string literal of its decimal digits, never as a
  native numeric literal: the text of the document is, character for character, the one
  described above, in which each limb stands between double quotes.
\<close>

theorem bigints_serialized_as_strings:
  assumes "myStepInput env d = Inr inp"
  shows "\<exists>sig.
           StepInput.signature inp = SigArray sig \<and>
           document env inp =
             ''{'' @ member_text ''pubkeysX'' (array_text (map limbs_text (pubkeysX inp)))
             @ '','' @ member_text ''pubkeysY'' (array_text (map limbs_text (pubkeysY inp)))
             @ optional_member (stringify_parsed env) ''aggregationBits'' (aggregationBits inp)
             @ '','' @ member_text ''signature'' (limbs_text sig)
             @ '','' @ member_text ''signingRoot'' (array_text (map digits10 (signingRoot inp)))
             @ optional_member (stringify_parsed env) ''participation''
                 (StepInput.participation inp)
             @ optional_member (stringify_parsed env) ''syncCommitteePoseidon''
                 (StepInput.syncCommitteePoseidon inp)
             @ ''}''"
proof -
  from myStepInput_Inr [OF assms] obtain s where
    "sigHexAsSnarkInput env (StepData.signature d) ''array'' = Inr s"
    and s: "StepInput.signature inp = s"
    by auto
  with sigHexAsSnarkInput_array obtain sig where sig: "StepInput.signature inp = SigArray sig"
    by blast
  have X: "render (stringify_parsed env) (JSON_stringify (VArray (map limbs_value (pubkeysX inp))))
             = array_text (map limbs_text (pubkeysX inp))"
    by (rule render_limb_arrays)
  have Y: "render (stringify_parsed env) (JSON_stringify (VArray (map limbs_value (pubkeysY inp))))
             = array_text (map limbs_text (pubkeysY inp))"
    by (rule render_limb_arrays)
  have S: "render (stringify_parsed env) (JSON_stringify (limbs_value sig)) = limbs_text sig"
    by (rule render_limbs)
  have R: "render (stringify_parsed env) (JSON_stringify (VArray (map VNumber (signingRoot inp))))
             = array_text (map digits10 (signingRoot inp))"
    by (rule render_bytes)
  have "document env inp =
             ''{'' @ member_text ''pubkeysX'' (array_text (map limbs_text (pubkeysX inp)))
             @ '','' @ member_text ''pubkeysY'' (array_text (map limbs_text (pubkeysY inp)))
             @ optional_member (stringify_parsed env) ''aggregationBits'' (aggregationBits inp)
             @ '','' @ member_text ''signature'' (limbs_text sig)
             @ '','' @ member_text ''signingRoot'' (array_text (map digits10 (signingRoot inp)))
             @ optional_member (stringify_parsed env) ''participation''
                 (StepInput.participation inp)
             @ optional_member (stringify_parsed env) ''syncCommitteePoseidon''
                 (StepInput.syncCommitteePoseidon inp)
             @ ''}''"
    unfolding document_def StepInput_value_def
    using X Y S R sig
    by (simp add: join_with_comma limbs_value_defined parsed_value_def optional_member_def member_text_def
                  quoted_def string_literal_def
             del: JSON_stringify.simps(5)
             split: option.splits)
  with sig show ?thesis by blast
qed

text \<open>The text of the sample's document.\<close>

lemma sample_expected_text:
  "''{'' @ member_text ''pubkeysX''
            (array_text (map limbs_text [[5, 0, 0, 0, 0, 0, 0], [0, 1, 0, 0, 0, 0, 0]]))
   @ '','' @ member_text ''pubkeysY''
            (array_text (map limbs_text [[7, 0, 0, 0, 0, 0, 0], [3, 0, 1, 0, 0, 0, 0]]))
   @ optional_member (\<lambda>text. text) ''aggregationBits'' (Some ''[1,1]'')
   @ '','' @ member_text ''signature''
            (limbs_text [1, 0, 0, 0, 0, 0, 0, 2, 0, 0, 0, 0, 0, 0,
                         3, 0, 0, 0, 0, 0, 0, 4, 0, 0, 0, 0, 0, 0])
   @ '','' @ member_text ''signingRoot'' (array_text (map digits10 [18, 52]))
   @ optional_member (\<lambda>text. text) ''participation'' (Some ''2'')
   @ optional_member (\<lambda>text. text) ''syncCommitteePoseidon'' None
   @ ''}''
   = ''{\"pubkeysX\":[[\"5\",\"0\",\"0\",\"0\",\"0\",\"0\",\"0\"],[\"0\",\"1\",\"0\",\"0\",\"0\",\"0\",\"0\"]],\"pubkeysY\":[[\"7\",\"0\",\"0\",\"0\",\"0\",\"0\",\"0\"],[\"3\",\"0\",\"1\",\"0\",\"0\",\"0\",\"0\"]],\"aggregationBits\":[1,1],\"signature\":[\"1\",\"0\",\"0\",\"0\",\"0\",\"0\",\"0\",\"2\",\"0\",\"0\",\"0\",\"0\",\"0\",\"0\",\"3\",\"0\",\"0\",\"0\",\"0\",\"0\",\"0\",\"4\",\"0\",\"0\",\"0\",\"0\",\"0\",\"0\"],\"signingRoot\":[18,52],\"participation\":2}''"
  by code_simp

theorem bigints_serialized_as_strings_witness:
  "\<exists>inp. myStepInput sample_env sample_data = Inr inp \<and>
     document sample_env inp
       = ''{\"pubkeysX\":[[\"5\",\"0\",\"0\",\"0\",\"0\",\"0\",\"0\"],[\"0\",\"1\",\"0\",\"0\",\"0\",\"0\",\"0\"]],\"pubkeysY\":[[\"7\",\"0\",\"0\",\"0\",\"0\",\"0\",\"0\"],[\"3\",\"0\",\"1\",\"0\",\"0\",\"0\",\"0\"]],\"aggregationBits\":[1,1],\"signature\":[\"1\",\"0\",\"0\",\"0\",\"0\",\"0\",\"0\",\"2\",\"0\",\"0\",\"0\",\"0\",\"0\",\"0\",\"3\",\"0\",\"0\",\"0\",\"0\",\"0\",\"0\",\"4\",\"0\",\"0\",\"0\",\"0\",\"0\",\"0\"],\"signingRoot\":[18,52],\"participation\":2}''"
proof -
  have raw: "stringify_parsed sample_env = (\<lambda>text. text)"
    by (simp add: sample_env_def)
  from bigints_serialized_as_strings [OF sample_input] show ?thesis
    using sample_input sample_expected_text by (simp add: raw)
qed

subsection \<open>Fields that are copied\<close>



subsection \<open>The numeric parameter\<close>

text \<open>
  Claim C9. The numeric parameter of \<^verbatim>\<open>convertMyStepData\<close>, whose default is 512, has
  no effect: for any two values of it, and for the call without it, the run on the same
  world has the same result and writes the same document.
\<close>

theorem numeric_parameter_ignored:
  "convertMyStepData env b1 w = convertMyStepData env b2 w"
  by (simp add: convertMyStepData_def)

text \<open>The call without the argument and the call with 1024.\<close>

theorem numeric_parameter_ignored_witness:
  "convertMyStepData sample_env None (sample_world ''sample'')
     = convertMyStepData sample_env (Some 1024) (sample_world ''sample'')"
  by (rule numeric_parameter_ignored)

end
